theory Spec2Isabelle
  imports Main "HOL-Library.Sublist" "HOL-Library.Word"
begin

section \<open>Python values, exceptions and strings\<close>

text \<open>
  The vision-model layer of \<^verbatim>\<open>deepdoc/depend/simple_cv_model.py\<close> is embedded
  function by function. A Python \<^verbatim>\<open>str\<close> is a \<^typ>\<open>string\<close> (non-ASCII text is
  carried as its UTF-8 bytes), an unbounded Python \<^verbatim>\<open>int\<close> is an \<^typ>\<open>int\<close>, and
  every exception is a value: a function that can raise returns a sum whose left side
  is the exception. What the external client libraries answer (the Ollama client, the
  hosted APIs) is a parameter of each operation.
\<close>

datatype exc_kind =
  TypeError | IndexError | KeyError | ValueError | AttributeError | ImportError | BackendError

text \<open>An exception object; \<open>exc_str\<close> is what \<^verbatim>\<open>str(e)\<close> gives.\<close>

datatype pyexc = PyExc (exc_kind: exc_kind) (exc_str: string)

definition quote_char :: char where
  "quote_char = CHR 0x27"

text \<open>\<^verbatim>\<open>d[k]\<close> on a dict without the key \<open>k\<close>: \<^verbatim>\<open>str(KeyError('k'))\<close> is the key's repr.\<close>

definition key_error :: "string \<Rightarrow> pyexc" where
  "key_error k = PyExc KeyError (quote_char # k @ [quote_char])"

text \<open>The sentinel marker of the error convention.\<close>

definition error_marker :: string where
  "error_marker = ''**ERROR**: ''"

section \<open>OllamaCV.chat_streamly: the streaming loop\<close>

text \<open>
  One chunk of the streamed response, read by \<^verbatim>\<open>resp["done"]\<close>,
  \<^verbatim>\<open>resp.get("prompt_eval_count", 0)\<close>, \<^verbatim>\<open>resp.get("eval_count", 0)\<close> and
  \<^verbatim>\<open>resp["message"]["content"]\<close>. A key that is absent is \<open>None\<close>; for the message,
  \<open>Some None\<close> is a message without \<^verbatim>\<open>"content"\<close>. For a count, \<open>None\<close> is a chunk
  without the key (a dict that lacks it) and \<open>Some None\<close> a chunk that has the count as
  \<^verbatim>\<open>None\<close>: the response objects that the \<^verbatim>\<open>ollama\<close> client hands out from its
  version 0.4 on have every count as an attribute, \<^verbatim>\<open>None\<close> when the server left the
  count out, and their \<^verbatim>\<open>get\<close> returns the attribute, not the default.
\<close>

record chunk =
  c_done :: "bool option"
  c_prompt_eval_count :: "int option option"
  c_eval_count :: "int option option"
  c_message :: "string option option"

text \<open>
  What the response iterator does at each \<^verbatim>\<open>next\<close>: hand out a chunk or raise. An
  exhausted iterator is the end of the list; nothing after a \<open>Raise\<close> is ever read.
\<close>

datatype stream_item = Chunk chunk | Raise pyexc

text \<open>The generator yields text (\<^verbatim>\<open>str\<close>) and integer events.\<close>

datatype event = TextEvent string | IntEvent int

text \<open>
  \<^verbatim>\<open>resp.get(k, 0)\<close>: the default 0 stands in for an absent key only; the value
  found may be \<^verbatim>\<open>None\<close> (here \<open>None\<close>).
\<close>

definition get_or_0 :: "int option option \<Rightarrow> int option" where
  "get_or_0 v = (case v of None \<Rightarrow> Some 0 | Some x \<Rightarrow> x)"

text \<open>\<^verbatim>\<open>a + b\<close> on values that are integers or \<^verbatim>\<open>None\<close>.\<close>

definition operand_type :: "int option \<Rightarrow> string" where
  "operand_type v = (case v of None \<Rightarrow> ''NoneType'' | Some n \<Rightarrow> ''int'')"

definition py_add :: "int option \<Rightarrow> int option \<Rightarrow> pyexc + int" where
  "py_add a b =
     (case (a, b) of
        (Some m, Some n) \<Rightarrow> Inr (m + n)
      | _ \<Rightarrow>
          Inl (PyExc TypeError
                (''unsupported operand type(s) for +: '' @
                 quote_char # operand_type a @ [quote_char] @ '' and '' @
                 quote_char # operand_type b @ [quote_char])))"

text \<open>The handler's event: \<^verbatim>\<open>yield ans + "\n**ERROR**: " + str(e)\<close>.\<close>

definition error_event :: "string \<Rightarrow> pyexc \<Rightarrow> event" where
  "error_event ans e = TextEvent (ans @ [CHR 0x0A] @ error_marker @ exc_str e)"

text \<open>
  The body of the \<^verbatim>\<open>try\<close>: \<^verbatim>\<open>for resp in response\<close> with the running buffer
  \<open>ans\<close>. An exception anywhere in the loop (the iterator's, a missing key, or the
  addition of the counts) ends it in the handler; the result is the events yielded up to the end of the
  \<^verbatim>\<open>try\<close>/\<^verbatim>\<open>except\<close>.
\<close>

text \<open>
  \<^verbatim>\<open>if resp["done"]: yield resp.get("prompt_eval_count", 0) + resp.get("eval_count", 0)\<close>,
  for the value \<open>d\<close> of \<^verbatim>\<open>resp["done"]\<close>: the event the statement yields, if any, or
  the exception of the addition.
\<close>

definition usage_events :: "bool \<Rightarrow> chunk \<Rightarrow> pyexc + event list" where
  "usage_events d resp =
     (if d then
        (case py_add (get_or_0 (c_prompt_eval_count resp)) (get_or_0 (c_eval_count resp)) of
           Inl e \<Rightarrow> Inl e
         | Inr n \<Rightarrow> Inr [IntEvent n])
      else Inr [])"

fun stream_loop :: "string \<Rightarrow> stream_item list \<Rightarrow> event list" where
  "stream_loop ans [] = []"
| "stream_loop ans (Raise e # rest) = [error_event ans e]"
| "stream_loop ans (Chunk resp # rest) =
     (case c_done resp of
        None \<Rightarrow> [error_event ans (key_error ''done'')]
      | Some d \<Rightarrow>
          (case usage_events d resp of
             Inl e \<Rightarrow> [error_event ans e]
           | Inr usage \<Rightarrow>
               usage @
               (case c_message resp of
                  None \<Rightarrow> [error_event ans (key_error ''message'')]
                | Some None \<Rightarrow> [error_event ans (key_error ''content'')]
                | Some (Some txt) \<Rightarrow> TextEvent (ans @ txt) # stream_loop (ans @ txt) rest)))"

text \<open>
  The events of the generator from \<^verbatim>\<open>ans = ""\<close> on, for the outcome of
  \<^verbatim>\<open>self.client.chat(..., stream=True)\<close>: the call itself may raise (inside the
  \<^verbatim>\<open>try\<close>), and \<^verbatim>\<open>yield 0\<close> follows the \<^verbatim>\<open>try\<close> in every case.
\<close>

definition stream_events :: "pyexc + stream_item list \<Rightarrow> event list" where
  "stream_events response =
     (case response of
        Inl e \<Rightarrow> [error_event [] e]
      | Inr items \<Rightarrow> stream_loop [] items) @ [IntEvent 0]"

section \<open>Conversations, images and requests\<close>

type_synonym byte = "8 word"

text \<open>
  The values callers pass as an image: an \<^verbatim>\<open>io.BytesIO\<close> (its buffer and its read
  position), a \<^verbatim>\<open>bytes\<close> object, a decoded \<^verbatim>\<open>PIL.Image\<close> (with the bytes it was opened from), or
  a \<^verbatim>\<open>str\<close> (the default \<^verbatim>\<open>image=""\<close> of the chat operations).
\<close>

datatype pyimage =
  BytesIO "byte list" nat
| Bytes "byte list"
| PILImage "byte list"
| StrValue string

text \<open>
  A turn of the conversation: a dict with \<^verbatim>\<open>"role"\<close> and \<^verbatim>\<open>"content"\<close>, and
  \<^verbatim>\<open>"images"\<close> once an image list has been stored in it.
\<close>

record turn =
  role :: string
  content :: string
  images :: "pyimage list option"

text \<open>
  The instance (\<^verbatim>\<open>self\<close>). \<^verbatim>\<open>OllamaCV.__init__\<close> does not call the base
  initialiser, so its instances have no \<^verbatim>\<open>key\<close> attribute; \<open>host\<close> is the address its
  client was built for.
\<close>

datatype backend_class = GptV4 | QWenCV | Zhipu4V | OllamaCV | GeminiCV | AnthropicCV

record vision_model =
  cls :: backend_class
  key :: "string option"
  model_name :: string
  lang :: string
  host :: "string option"

text \<open>The keyword arguments of \<^verbatim>\<open>self.client.chat\<close>.\<close>

record 'v chat_request =
  req_model :: string
  req_messages :: "turn list"
  req_stream :: bool
  req_options :: "string \<rightharpoonup> 'v"
  req_keep_alive :: int

text \<open>
  The non-streaming answer of \<^verbatim>\<open>self.client.chat\<close>, with its keys and counts as in a
  chunk.
\<close>

record chat_response =
  r_message :: "string option option"
  r_eval_count :: "int option option"
  r_prompt_eval_count :: "int option option"

text \<open>
  \<^verbatim>\<open>str.strip()\<close>: whitespace is removed at both ends. The whitespace characters are
  those of the ASCII range (a non-ASCII space is not a single \<^typ>\<open>char\<close> here).
\<close>

definition py_isspace :: "char \<Rightarrow> bool" where
  "py_isspace c = (c \<in> set [CHR 0x09, CHR 0x0A, CHR 0x0B, CHR 0x0C, CHR 0x0D,
                              CHR 0x1C, CHR 0x1D, CHR 0x1E, CHR 0x1F, CHR 0x20])"

definition py_strip :: "string \<Rightarrow> string" where
  "py_strip s = rev (dropWhile py_isspace (rev (dropWhile py_isspace s)))"

text \<open>\<^verbatim>\<open>if system:\<close> holds for a non-empty string; \<open>None\<close> is an absent prompt.\<close>

definition truthy :: "string option \<Rightarrow> bool" where
  "truthy s = (case s of None \<Rightarrow> False | Some t \<Rightarrow> t \<noteq> [])"

definition the_str :: "string option \<Rightarrow> string" where
  "the_str s = (case s of None \<Rightarrow> [] | Some t \<Rightarrow> t)"

text \<open>
  The first statement of \<^verbatim>\<open>chat\<close> and \<^verbatim>\<open>chat_streamly\<close>, outside the \<^verbatim>\<open>try\<close>:
  \<^verbatim>\<open>history[-1]["content"] = system + history[-1]["content"] + "user query: " +
  history[-1]["content"]\<close>. On an empty history \<^verbatim>\<open>history[-1]\<close> raises.
\<close>

definition rewrite_last :: "string option \<Rightarrow> turn list \<Rightarrow> pyexc + turn list" where
  "rewrite_last system history =
     (if truthy system then
        (if history = [] then Inl (PyExc IndexError ''list index out of range'')
         else Inr (butlast history @
                [(last history)\<lparr>content :=
                    the_str system @ content (last history) @ ''user query: '' @
                    content (last history)\<rparr>]))
      else Inr history)"

text \<open>
  \<^verbatim>\<open>for his in history: if his["role"] == "user": his["images"] = [image]\<close>
\<close>

definition attach_images :: "pyimage \<Rightarrow> turn list \<Rightarrow> turn list" where
  "attach_images img history =
     map (\<lambda>his. if role his = ''user'' then his\<lparr>images := Some [img]\<rparr> else his) history"

text \<open>
  The options dict: each recognised key of \<open>gen_conf\<close> is copied only when present;
  \<^verbatim>\<open>top_p\<close> is stored under \<^verbatim>\<open>top_k\<close>, as the source does.
\<close>

definition copy_option ::
  "(string \<rightharpoonup> 'v) \<Rightarrow> string \<Rightarrow> string \<Rightarrow> (string \<rightharpoonup> 'v) \<Rightarrow> (string \<rightharpoonup> 'v)" where
  "copy_option gen_conf src dst options =
     (case gen_conf src of None \<Rightarrow> options | Some v \<Rightarrow> options(dst \<mapsto> v))"

definition build_options :: "(string \<rightharpoonup> 'v) \<Rightarrow> (string \<rightharpoonup> 'v)" where
  "build_options gen_conf =
     copy_option gen_conf ''frequency_penalty'' ''frequency_penalty''
       (copy_option gen_conf ''presence_penalty'' ''presence_penalty''
         (copy_option gen_conf ''top_p'' ''top_k''
           (copy_option gen_conf ''temperature'' ''temperature'' Map.empty)))"

definition chat_request_of ::
  "vision_model \<Rightarrow> turn list \<Rightarrow> bool \<Rightarrow> (string \<rightharpoonup> 'v) \<Rightarrow> 'v chat_request" where
  "chat_request_of self messages stream gen_conf =
     \<lparr>req_model = model_name self, req_messages = messages, req_stream = stream,
      req_options = build_options gen_conf, req_keep_alive = - 1\<rparr>"

text \<open>The sentinel pair of the non-streaming operations.\<close>

definition error_pair :: "pyexc \<Rightarrow> string \<times> int" where
  "error_pair e = (error_marker @ exc_str e, 0)"

section \<open>OllamaCV.chat and OllamaCV.chat_streamly\<close>

text \<open>
  What \<^verbatim>\<open>chat\<close> makes of the client's answer, inside the \<^verbatim>\<open>try\<close>:
  \<^verbatim>\<open>ans = response["message"]["content"].strip()\<close>, then
  \<^verbatim>\<open>return ans, response["eval_count"] + response.get("prompt_eval_count", 0)\<close>.
\<close>

definition chat_result :: "pyexc + chat_response \<Rightarrow> string \<times> int" where
  "chat_result response =
     (case response of
        Inl e \<Rightarrow> error_pair e
      | Inr r \<Rightarrow>
          (case r_message r of
             None \<Rightarrow> error_pair (key_error ''message'')
           | Some None \<Rightarrow> error_pair (key_error ''content'')
           | Some (Some txt) \<Rightarrow>
               (case r_eval_count r of
                  None \<Rightarrow> error_pair (key_error ''eval_count'')
                | Some n \<Rightarrow>
                    (case py_add n (get_or_0 (r_prompt_eval_count r)) of
                       Inl e \<Rightarrow> error_pair e
                     | Inr tokens \<Rightarrow> (py_strip txt, tokens)))))"

text \<open>
  \<^verbatim>\<open>chat\<close> returns the caller's history as the call leaves it (the list is mutated in
  place and is itself the \<^verbatim>\<open>messages\<close> argument) and the result pair; an exception of
  the first statement propagates.
\<close>

definition chat ::
  "vision_model \<Rightarrow> string option \<Rightarrow> turn list \<Rightarrow> (string \<rightharpoonup> 'v) \<Rightarrow> pyimage \<Rightarrow>
   ('v chat_request \<Rightarrow> pyexc + chat_response) \<Rightarrow> pyexc + turn list \<times> (string \<times> int)" where
  "chat self system history gen_conf img client =
     (case rewrite_last system history of
        Inl e \<Rightarrow> Inl e
      | Inr h \<Rightarrow>
          (let messages = attach_images img h in
           Inr (messages, chat_result (client (chat_request_of self messages False gen_conf)))))"

text \<open>
  \<^verbatim>\<open>chat_streamly\<close>, read to its end by the caller: the history as the call leaves it
  and the events in the order they are yielded.
\<close>

definition chat_streamly ::
  "vision_model \<Rightarrow> string option \<Rightarrow> turn list \<Rightarrow> (string \<rightharpoonup> 'v) \<Rightarrow> pyimage \<Rightarrow>
   ('v chat_request \<Rightarrow> pyexc + stream_item list) \<Rightarrow> pyexc + turn list \<times> event list" where
  "chat_streamly self system history gen_conf img client =
     (case rewrite_last system history of
        Inl e \<Rightarrow> Inl e
      | Inr h \<Rightarrow>
          (let messages = attach_images img h in
           Inr (messages, stream_events (client (chat_request_of self messages True gen_conf)))))"

section \<open>Base.image2base64\<close>

text \<open>\<^verbatim>\<open>base64.b64encode\<close>: three bytes become four characters of the alphabet; a last
  group of one or two bytes is padded with \<^verbatim>\<open>=\<close>.\<close>

definition b64_alphabet :: string where
  "b64_alphabet = ''ABCDEFGHIJKLMNOPQRSTUVWXYZabcdefghijklmnopqrstuvwxyz0123456789+/''"

definition b64_char :: "nat \<Rightarrow> char" where
  "b64_char n = b64_alphabet ! n"

fun b64encode :: "byte list \<Rightarrow> string" where
  "b64encode (a # b # c # rest) =
     [b64_char (unat a div 4),
      b64_char ((unat a mod 4) * 16 + unat b div 16),
      b64_char ((unat b mod 16) * 4 + unat c div 64),
      b64_char (unat c mod 64)] @ b64encode rest"
| "b64encode [a, b] =
     [b64_char (unat a div 4),
      b64_char ((unat a mod 4) * 16 + unat b div 16),
      b64_char ((unat b mod 16) * 4),
      CHR ''='']"
| "b64encode [a] =
     [b64_char (unat a div 4), b64_char ((unat a mod 4) * 16), CHR ''='', CHR ''='']"
| "b64encode [] = []"

text \<open>
  \<^verbatim>\<open>BytesIO.seek\<close> and \<^verbatim>\<open>BytesIO.read\<close> on a buffer and its read position: \<^verbatim>\<open>read()\<close>
  returns the bytes from the position to the end and leaves the position at the end.
\<close>

definition bytesio_seek :: "nat \<Rightarrow> byte list \<times> nat \<Rightarrow> byte list \<times> nat" where
  "bytesio_seek target b = (fst b, target)"

definition bytesio_read :: "byte list \<times> nat \<Rightarrow> (byte list \<times> nat) \<times> byte list" where
  "bytesio_read b = ((fst b, max (snd b) (length (fst b))), drop (snd b) (fst b))"

text \<open>
  \<^verbatim>\<open>image2base64\<close> returns the caller's object as the call leaves it (a \<^verbatim>\<open>BytesIO\<close> has
  been read to its end) and the encoded text, or the \<^verbatim>\<open>ValueError\<close> of the last branch.
\<close>

definition image2base64 :: "pyimage \<Rightarrow> pyimage \<times> (pyexc + string)" where
  "image2base64 binary =
     (case binary of
        BytesIO buf pos \<Rightarrow>
          (let (b, img_data) = bytesio_read (bytesio_seek 0 (buf, pos))
           in (BytesIO (fst b) (snd b), Inr (b64encode img_data)))
      | Bytes img_data \<Rightarrow> (binary, Inr (b64encode img_data))
      | _ \<Rightarrow> (binary, Inl (PyExc ValueError ''binary must be BytesIO or bytes'')))"

section \<open>Base.prompt and Base.vision_llm_prompt\<close>

text \<open>
  The Python values that the prompt code handles and indexes: a string, an integer, a
  function object, a list, a dict with string keys, \<^verbatim>\<open>None\<close>.
\<close>

datatype pyval =
  PStr string
| PInt int
| PFunction string
| PList "pyval list"
| PDict "(string \<times> pyval) list"
| PNone

text \<open>A sequence index as Python reads it: a negative index counts from the end.\<close>

definition seq_index :: "nat \<Rightarrow> int \<Rightarrow> nat option" where
  "seq_index n i =
     (let j = (if i < 0 then int n + i else i)
      in if 0 \<le> j \<and> j < int n then Some (nat j) else None)"

text \<open>
  \<^verbatim>\<open>obj[k]\<close>. Indexing a string gives a string of one element; a string or a list
  indexed by anything but an integer, and an object without \<^verbatim>\<open>__getitem__\<close>, raise
  \<^verbatim>\<open>TypeError\<close>.
\<close>

definition not_subscriptable :: "string \<Rightarrow> pyexc" where
  "not_subscriptable tname =
     PyExc TypeError (quote_char # tname @ [quote_char] @ '' object is not subscriptable'')"

fun py_getitem :: "pyval \<Rightarrow> pyval \<Rightarrow> pyexc + pyval" where
  "py_getitem (PStr s) (PInt i) =
     (case seq_index (length s) i of
        None \<Rightarrow> Inl (PyExc IndexError ''string index out of range'')
      | Some j \<Rightarrow> Inr (PStr [s ! j]))"
| "py_getitem (PStr s) k = Inl (PyExc TypeError ''string indices must be integers'')"
| "py_getitem (PList xs) (PInt i) =
     (case seq_index (length xs) i of
        None \<Rightarrow> Inl (PyExc IndexError ''list index out of range'')
      | Some j \<Rightarrow> Inr (xs ! j))"
| "py_getitem (PList xs) k = Inl (PyExc TypeError ''list indices must be integers or slices'')"
| "py_getitem (PDict kvs) (PStr k) =
     (case map_of kvs k of None \<Rightarrow> Inl (key_error k) | Some v \<Rightarrow> Inr v)"
| "py_getitem (PDict kvs) k = Inl (PyExc KeyError ''key not in dict'')"
| "py_getitem (PFunction f) k = Inl (not_subscriptable ''function'')"
| "py_getitem (PInt n) k = Inl (not_subscriptable ''int'')"
| "py_getitem PNone k = Inl (not_subscriptable ''NoneType'')"

text \<open>\<^verbatim>\<open>str.lower()\<close>, on the letters of the ASCII range.\<close>

definition lower_char :: "char \<Rightarrow> char" where
  "lower_char c =
     (case map_of (zip ''ABCDEFGHIJKLMNOPQRSTUVWXYZ'' ''abcdefghijklmnopqrstuvwxyz'') c of
        None \<Rightarrow> c
      | Some l \<Rightarrow> l)"

definition py_lower :: "string \<Rightarrow> string" where
  "py_lower s = map lower_char s"

text \<open>
  What the module-level name \<^verbatim>\<open>vision_llm_describe_prompt\<close> is bound to once the module
  is loaded: the function imported from \<^verbatim>\<open>prompts\<close>, or, when both imports fail, the
  fallback text written in the module (the parameter is that text).
\<close>

datatype prompt_binding = ImportedFunction | FallbackText string

definition vision_llm_describe_prompt :: "prompt_binding \<Rightarrow> pyval" where
  "vision_llm_describe_prompt b =
     (case b of
        ImportedFunction \<Rightarrow> PFunction ''vision_llm_describe_prompt''
      | FallbackText txt \<Rightarrow> PStr txt)"

text \<open>
  \<^verbatim>\<open>vision_llm_prompt(self, image)\<close> returns the bound value itself for Chinese and a
  fixed English string otherwise; \<^verbatim>\<open>prompt(self, image)\<close> is the same value.
\<close>

definition vision_llm_prompt :: "prompt_binding \<Rightarrow> vision_model \<Rightarrow> pyval" where
  "vision_llm_prompt b self =
     (if py_lower (lang self) = ''chinese'' then vision_llm_describe_prompt b
      else PStr ''Please describe this image in detail.'')"

definition prompt :: "prompt_binding \<Rightarrow> vision_model \<Rightarrow> pyval" where
  "prompt b self = vision_llm_prompt b self"

section \<open>OllamaCV.describe and OllamaCV.describe_with_prompt\<close>

text \<open>The keyword arguments of \<^verbatim>\<open>self.client.generate\<close>.\<close>

record generate_request =
  g_model :: string
  g_prompt :: pyval
  g_images :: "pyimage list"

definition bind_exc :: "pyexc + 'a \<Rightarrow> ('a \<Rightarrow> pyexc + 'b) \<Rightarrow> pyexc + 'b" where
  "bind_exc r f = (case r of Inl e \<Rightarrow> Inl e | Inr v \<Rightarrow> f v)"

text \<open>The argument expression \<^verbatim>\<open>prompt[0]["content"][1]["text"]\<close>.\<close>

definition prompt_text_of :: "pyval \<Rightarrow> pyexc + pyval" where
  "prompt_text_of p =
     bind_exc (py_getitem p (PInt 0)) (\<lambda>m.
     bind_exc (py_getitem m (PStr ''content'')) (\<lambda>c.
     bind_exc (py_getitem c (PInt 1)) (\<lambda>part.
     py_getitem part (PStr ''text''))))"

text \<open>
  The body of the \<^verbatim>\<open>try\<close> shared by both operations: the argument expression, the
  call, then \<^verbatim>\<open>response["response"].strip()\<close> with the constant 128; any exception
  gives the sentinel pair. The client's answer is the value under \<^verbatim>\<open>"response"\<close>, if any.
\<close>

definition generate_result ::
  "vision_model \<Rightarrow> pyval \<Rightarrow> pyimage \<Rightarrow> (generate_request \<Rightarrow> pyexc + string option) \<Rightarrow>
   string \<times> int" where
  "generate_result self p img client =
     (case prompt_text_of p of
        Inl e \<Rightarrow> error_pair e
      | Inr txt \<Rightarrow>
          (case client \<lparr>g_model = model_name self, g_prompt = txt, g_images = [img]\<rparr> of
             Inl e \<Rightarrow> error_pair e
           | Inr None \<Rightarrow> error_pair (key_error ''response'')
           | Inr (Some ans) \<Rightarrow> (py_strip ans, 128)))"

definition ollama_describe ::
  "prompt_binding \<Rightarrow> vision_model \<Rightarrow> pyimage \<Rightarrow>
   (generate_request \<Rightarrow> pyexc + string option) \<Rightarrow> string \<times> int" where
  "ollama_describe b self img client = generate_result self (prompt b self) img client"

text \<open>
  \<^verbatim>\<open>describe_with_prompt\<close> calls \<^verbatim>\<open>self.vision_llm_prompt("", prompt)\<close> when a prompt is
  given: one argument more than the method takes, and outside the \<^verbatim>\<open>try\<close>.
\<close>

definition ollama_describe_with_prompt ::
  "prompt_binding \<Rightarrow> vision_model \<Rightarrow> pyimage \<Rightarrow> string option \<Rightarrow>
   (generate_request \<Rightarrow> pyexc + string option) \<Rightarrow> pyexc + string \<times> int" where
  "ollama_describe_with_prompt b self img given client =
     (if truthy given then
        Inl (PyExc TypeError
          ''Base.vision_llm_prompt() takes 2 positional arguments but 3 were given'')
      else Inr (generate_result self (vision_llm_prompt b self) img client))"

section \<open>The hosted variants: describe_with_prompt\<close>

text \<open>
  What each hosted class sends: the chat-completion call of \<^verbatim>\<open>GptV4\<close>, \<^verbatim>\<open>QWenCV\<close> and
  \<^verbatim>\<open>Zhipu4V\<close> (model, text, image URL, \<^verbatim>\<open>max_tokens\<close>), the messages call of
  \<^verbatim>\<open>AnthropicCV\<close> (model, \<^verbatim>\<open>max_tokens\<close>, text, base64 data), and the content list of
  \<^verbatim>\<open>GeminiCV\<close> (the prompt and the image opened from the bytes).
\<close>

datatype hosted_request =
  ChatCompletion string pyval string int
| AnthropicMessage string int pyval string
| GeminiContent pyval "byte list"

text \<open>The text of the sentinel convention: \<^verbatim>\<open>"**ERROR**: " + str(e)\<close>.\<close>

definition error_text :: "pyexc \<Rightarrow> string" where
  "error_text e = error_marker @ exc_str e"

text \<open>\<^verbatim>\<open>prompt or self.prompt(image)\<close>\<close>

definition prompt_or :: "string option \<Rightarrow> prompt_binding \<Rightarrow> vision_model \<Rightarrow> pyval" where
  "prompt_or given b self = (if truthy given then PStr (the_str given) else prompt b self)"

text \<open>
  \<^verbatim>\<open>response.choices[0].message.content.strip()\<close>, and likewise
  \<^verbatim>\<open>message.content[0].text.strip()\<close>: the answer is the list of the choices' (the
  blocks') texts, \<open>None\<close> for a choice without text.
\<close>

definition first_text :: "string option list \<Rightarrow> pyexc + string" where
  "first_text choices =
     (case choices of
        [] \<Rightarrow> Inl (PyExc IndexError ''list index out of range'')
      | None # _ \<Rightarrow>
          Inl (PyExc AttributeError
                (quote_char # ''NoneType'' @ [quote_char] @ '' object has no attribute '' @
                 quote_char # ''strip'' @ [quote_char]))
      | Some txt # _ \<Rightarrow> Inr (py_strip txt))"

text \<open>
  \<^verbatim>\<open>GptV4\<close>, \<^verbatim>\<open>QWenCV\<close> and \<^verbatim>\<open>Zhipu4V\<close>: the whole body is inside the \<^verbatim>\<open>try\<close>, and both
  \<^verbatim>\<open>return\<close> statements return a string. (The read position of a \<^verbatim>\<open>BytesIO\<close> argument
  moves as \<open>image2base64\<close> says.)
\<close>

definition completion_describe_with_prompt ::
  "prompt_binding \<Rightarrow> vision_model \<Rightarrow> pyimage \<Rightarrow> string option \<Rightarrow>
   (hosted_request \<Rightarrow> pyexc + string option list) \<Rightarrow> string" where
  "completion_describe_with_prompt b self img given client =
     (case snd (image2base64 img) of
        Inl e \<Rightarrow> error_text e
      | Inr base64_image \<Rightarrow>
          (case bind_exc
                  (client (ChatCompletion (model_name self) (prompt_or given b self)
                            (''data:image/jpeg;base64,'' @ base64_image) 1000))
                  first_text of
             Inl e \<Rightarrow> error_text e
           | Inr ans \<Rightarrow> ans))"

definition anthropic_describe_with_prompt ::
  "prompt_binding \<Rightarrow> vision_model \<Rightarrow> pyimage \<Rightarrow> string option \<Rightarrow>
   (hosted_request \<Rightarrow> pyexc + string option list) \<Rightarrow> string" where
  "anthropic_describe_with_prompt b self img given client =
     (case snd (image2base64 img) of
        Inl e \<Rightarrow> error_text e
      | Inr base64_image \<Rightarrow>
          (case bind_exc
                  (client (AnthropicMessage (model_name self) 1000 (prompt_or given b self)
                            base64_image))
                  first_text of
             Inl e \<Rightarrow> error_text e
           | Inr ans \<Rightarrow> ans))"

text \<open>
  \<^verbatim>\<open>GeminiCV\<close> reads the bytes itself. The answer of the client stands for
  \<^verbatim>\<open>Image.open\<close>, \<^verbatim>\<open>generate_content\<close> and \<^verbatim>\<open>response.text\<close> together.
\<close>

definition gemini_describe_with_prompt ::
  "prompt_binding \<Rightarrow> vision_model \<Rightarrow> pyimage \<Rightarrow> string option \<Rightarrow>
   (hosted_request \<Rightarrow> pyexc + string) \<Rightarrow> string" where
  "gemini_describe_with_prompt b self img given client =
     (case (case img of
              BytesIO buf pos \<Rightarrow> Inr (snd (bytesio_read (bytesio_seek 0 (buf, pos))))
            | Bytes img_data \<Rightarrow> Inr img_data
            | _ \<Rightarrow> Inl (PyExc ValueError ''image must be BytesIO or bytes'')) of
        Inl e \<Rightarrow> error_text e
      | Inr img_data \<Rightarrow>
          (case client (GeminiContent (prompt_or given b self) img_data) of
             Inl e \<Rightarrow> error_text e
           | Inr txt \<Rightarrow> py_strip txt))"

section \<open>The operations as a caller reaches them\<close>

text \<open>
  The methods each class defines in its body, and those of \<^verbatim>\<open>Base\<close>. A call of a method
  that neither has raises \<^verbatim>\<open>AttributeError\<close>.
\<close>

definition class_name :: "backend_class \<Rightarrow> string" where
  "class_name c =
     (case c of GptV4 \<Rightarrow> ''GptV4'' | QWenCV \<Rightarrow> ''QWenCV'' | Zhipu4V \<Rightarrow> ''Zhipu4V''
      | OllamaCV \<Rightarrow> ''OllamaCV'' | GeminiCV \<Rightarrow> ''GeminiCV'' | AnthropicCV \<Rightarrow> ''AnthropicCV'')"

definition class_methods :: "backend_class \<Rightarrow> string list" where
  "class_methods c =
     (case c of
        OllamaCV \<Rightarrow>
          [''__init__'', ''describe'', ''describe_with_prompt'', ''chat'', ''chat_streamly'']
      | _ \<Rightarrow> [''__init__'', ''describe_with_prompt''])"

definition base_methods :: "string list" where
  "base_methods = [''__init__'', ''image2base64'', ''prompt'', ''vision_llm_prompt'']"

definition has_method :: "backend_class \<Rightarrow> string \<Rightarrow> bool" where
  "has_method c m = (m \<in> set (class_methods c @ base_methods))"

definition attribute_error :: "backend_class \<Rightarrow> string \<Rightarrow> pyexc" where
  "attribute_error c m =
     PyExc AttributeError
       (quote_char # class_name c @ [quote_char] @ '' object has no attribute '' @
        quote_char # m @ [quote_char])"

text \<open>What an operation hands back: a string, a pair, or the events of a generator.\<close>

datatype returned = RText string | RPair string int | REvents "event list"

text \<open>The client libraries behind an instance.\<close>

record 'v clients =
  generate_client :: "generate_request \<Rightarrow> pyexc + string option"
  chat_client :: "'v chat_request \<Rightarrow> pyexc + chat_response"
  stream_client :: "'v chat_request \<Rightarrow> pyexc + stream_item list"
  hosted_client :: "hosted_request \<Rightarrow> pyexc + string option list"
  gemini_client :: "hosted_request \<Rightarrow> pyexc + string"

definition pair_of :: "string \<times> int \<Rightarrow> returned" where
  "pair_of r = RPair (fst r) (snd r)"

definition describe ::
  "prompt_binding \<Rightarrow> 'v clients \<Rightarrow> vision_model \<Rightarrow> pyimage \<Rightarrow> pyexc + returned" where
  "describe b cl self img =
     (case cls self of
        OllamaCV \<Rightarrow> Inr (pair_of (ollama_describe b self img (generate_client cl)))
      | _ \<Rightarrow> Inl (attribute_error (cls self) ''describe''))"

definition describe_with_prompt ::
  "prompt_binding \<Rightarrow> 'v clients \<Rightarrow> vision_model \<Rightarrow> pyimage \<Rightarrow> string option \<Rightarrow>
   pyexc + returned" where
  "describe_with_prompt b cl self img given =
     (case cls self of
        OllamaCV \<Rightarrow>
          (case ollama_describe_with_prompt b self img given (generate_client cl) of
             Inl e \<Rightarrow> Inl e
           | Inr r \<Rightarrow> Inr (pair_of r))
      | GeminiCV \<Rightarrow> Inr (RText (gemini_describe_with_prompt b self img given (gemini_client cl)))
      | AnthropicCV \<Rightarrow>
          Inr (RText (anthropic_describe_with_prompt b self img given (hosted_client cl)))
      | _ \<Rightarrow> Inr (RText (completion_describe_with_prompt b self img given (hosted_client cl))))"

definition chat_op ::
  "'v clients \<Rightarrow> vision_model \<Rightarrow> string option \<Rightarrow> turn list \<Rightarrow> (string \<rightharpoonup> 'v) \<Rightarrow> pyimage \<Rightarrow>
   pyexc + returned" where
  "chat_op cl self system history gen_conf img =
     (case cls self of
        OllamaCV \<Rightarrow>
          (case chat self system history gen_conf img (chat_client cl) of
             Inl e \<Rightarrow> Inl e
           | Inr r \<Rightarrow> Inr (pair_of (snd r)))
      | _ \<Rightarrow> Inl (attribute_error (cls self) ''chat''))"

definition chat_streamly_op ::
  "'v clients \<Rightarrow> vision_model \<Rightarrow> string option \<Rightarrow> turn list \<Rightarrow> (string \<rightharpoonup> 'v) \<Rightarrow> pyimage \<Rightarrow>
   pyexc + returned" where
  "chat_streamly_op cl self system history gen_conf img =
     (case cls self of
        OllamaCV \<Rightarrow>
          (case chat_streamly self system history gen_conf img (stream_client cl) of
             Inl e \<Rightarrow> Inl e
           | Inr r \<Rightarrow> Inr (REvents (snd r)))
      | _ \<Rightarrow> Inl (attribute_error (cls self) ''chat_streamly''))"

section \<open>VisionModelFactory and create_vision_model\<close>

text \<open>
  What the process around the factory provides: whether the \<^verbatim>\<open>ollama\<close> package was
  importable (\<^verbatim>\<open>OLLAMA_AVAILABLE\<close>); for a class, an API key, a model name and a host,
  the exception its client library raises while the instance is built, if any; the
  environment variables; and, for a file name, the \<^verbatim>\<open>vision_model\<close> mapping read from it
  or the exception of reading it.
\<close>

record environment =
  ollama_available :: bool
  client_init :: "backend_class \<Rightarrow> string \<Rightarrow> string \<Rightarrow> string option \<Rightarrow> pyexc option"
  getenv :: "string \<Rightarrow> string option"
  load_vision_config :: "string \<Rightarrow> pyexc + (string \<rightharpoonup> string)"

text \<open>\<^verbatim>\<open>_PROVIDERS\<close>, in the order the dict is written.\<close>

definition providers :: "(string \<times> backend_class) list" where
  "providers =
     [(''openai'', GptV4), (''qwen'', QWenCV), (''zhipu'', Zhipu4V), (''ollama'', OllamaCV),
      (''gemini'', GeminiCV), (''anthropic'', AnthropicCV)]"

text \<open>The default of the \<^verbatim>\<open>model_name\<close> parameter in each class's \<^verbatim>\<open>__init__\<close>;
  \<^verbatim>\<open>OllamaCV.__init__\<close> gives it none.\<close>

definition default_model_name :: "backend_class \<Rightarrow> string option" where
  "default_model_name c =
     (case c of
        GptV4 \<Rightarrow> Some ''gpt-4-vision-preview''
      | QWenCV \<Rightarrow> Some ''qwen-vl-max''
      | Zhipu4V \<Rightarrow> Some ''glm-4v''
      | OllamaCV \<Rightarrow> None
      | GeminiCV \<Rightarrow> Some ''gemini-pro-vision''
      | AnthropicCV \<Rightarrow> Some ''claude-3-sonnet-20240229'')"

definition ollama_missing_message :: string where
  "ollama_missing_message =
     ''Ollama'' @
     [CHR 0xE5, CHR 0xAE, CHR 0xA2] @ [CHR 0xE6, CHR 0x88, CHR 0xB7] @
     [CHR 0xE7, CHR 0xAB, CHR 0xAF] @ [CHR 0xE6, CHR 0x9C, CHR 0xAA] @
     [CHR 0xE5, CHR 0xAE, CHR 0x89] @ [CHR 0xE8, CHR 0xA3, CHR 0x85] @
     [CHR 0xEF, CHR 0xBC, CHR 0x8C] @ [CHR 0xE8, CHR 0xAF, CHR 0xB7] @
     [CHR 0xE8, CHR 0xBF, CHR 0x90] @ [CHR 0xE8, CHR 0xA1, CHR 0x8C] @
     '': pip install ollama''"

text \<open>
  \<^verbatim>\<open>model_class(api_key, model_name, **kwargs)\<close>: the initialiser of the class. The hosted
  classes store key, model name and language and build their client; \<^verbatim>\<open>base_url\<close> is
  ignored by them. \<^verbatim>\<open>OllamaCV\<close> first checks \<^verbatim>\<open>OLLAMA_AVAILABLE\<close>, then builds its client
  for \<^verbatim>\<open>kwargs.get("base_url", "http://localhost:11434")\<close>.
\<close>

definition construct ::
  "environment \<Rightarrow> backend_class \<Rightarrow> string \<Rightarrow> string \<Rightarrow> string \<Rightarrow> string option \<Rightarrow>
   pyexc + vision_model" where
  "construct env c api_key name language base_url =
     (if c = OllamaCV then
        (if \<not> ollama_available env then Inl (PyExc ImportError ollama_missing_message)
         else
           (let h = (case base_url of None \<Rightarrow> ''http://localhost:11434'' | Some u \<Rightarrow> u) in
            case client_init env c api_key name (Some h) of
              Some e \<Rightarrow> Inl e
            | None \<Rightarrow>
                Inr \<lparr>cls = c, key = None, model_name = name, lang = language, host = Some h\<rparr>))
      else
        (case client_init env c api_key name None of
           Some e \<Rightarrow> Inl e
         | None \<Rightarrow>
             Inr \<lparr>cls = c, key = Some api_key, model_name = name, lang = language,
                  host = None\<rparr>))"

text \<open>\<^verbatim>\<open>config.get(k, d)\<close> on a mapping of strings.\<close>

definition config_get :: "(string \<rightharpoonup> string) \<Rightarrow> string \<Rightarrow> string \<Rightarrow> string" where
  "config_get config k d = (case config k of None \<Rightarrow> d | Some v \<Rightarrow> v)"

definition unsupported_provider :: string where
  "unsupported_provider =
     [CHR 0xE4, CHR 0xB8, CHR 0x8D] @ [CHR 0xE6, CHR 0x94, CHR 0xAF] @
     [CHR 0xE6, CHR 0x8C, CHR 0x81] @ [CHR 0xE7, CHR 0x9A, CHR 0x84] @
     [CHR 0xE6, CHR 0x8F, CHR 0x90] @ [CHR 0xE4, CHR 0xBE, CHR 0x9B] @
     [CHR 0xE5, CHR 0x95, CHR 0x86] @ '': ''"

text \<open>The chain that fills in an empty model name; it has no branch for \<^verbatim>\<open>"ollama"\<close>.\<close>

definition fill_model_name :: "string \<Rightarrow> string \<Rightarrow> string" where
  "fill_model_name provider name =
     (if name = [] then
        (if provider = ''openai'' then ''gpt-4-vision-preview''
         else if provider = ''qwen'' then ''qwen-vl-max''
         else if provider = ''zhipu'' then ''glm-4v''
         else if provider = ''gemini'' then ''gemini-pro-vision''
         else if provider = ''anthropic'' then ''claude-3-sonnet-20240229''
         else name)
      else name)"

definition create_model :: "environment \<Rightarrow> (string \<rightharpoonup> string) \<Rightarrow> pyexc + vision_model" where
  "create_model env config =
     (let provider = py_lower (config_get config ''provider'' ''openai'');
          name = config_get config ''model_name'' [];
          api_key = config_get config ''api_key'' [];
          language = config_get config ''lang'' ''Chinese'';
          base_url = config_get config ''base_url'' []
      in case map_of providers provider of
           None \<Rightarrow> Inl (PyExc ValueError (unsupported_provider @ provider))
         | Some model_class \<Rightarrow>
             construct env model_class api_key (fill_model_name provider name) language
               (if base_url \<noteq> [] then Some base_url else None))"

definition getenv_or :: "environment \<Rightarrow> string \<Rightarrow> string \<Rightarrow> string" where
  "getenv_or env k d = (case getenv env k of None \<Rightarrow> d | Some v \<Rightarrow> v)"

definition create_from_env :: "environment \<Rightarrow> pyexc + vision_model" where
  "create_from_env env =
     create_model env
       [''provider'' \<mapsto> getenv_or env ''DEEPDOC_VISION_PROVIDER'' ''openai'',
        ''model_name'' \<mapsto> getenv_or env ''DEEPDOC_VISION_MODEL'' [],
        ''api_key'' \<mapsto> getenv_or env ''DEEPDOC_VISION_API_KEY'' [],
        ''lang'' \<mapsto> getenv_or env ''DEEPDOC_VISION_LANG'' ''Chinese'',
        ''base_url'' \<mapsto> getenv_or env ''DEEPDOC_VISION_BASE_URL'' []]"

text \<open>
  \<^verbatim>\<open>create_from_config_file\<close> turns every exception of its \<^verbatim>\<open>try\<close>, that of
  \<^verbatim>\<open>create_model\<close> included, into a \<^verbatim>\<open>ValueError\<close>.
\<close>

definition load_failed :: "string \<Rightarrow> pyexc \<Rightarrow> pyexc" where
  "load_failed config_file e =
     PyExc ValueError (''Failed to load config from '' @ config_file @ '': '' @ exc_str e)"

definition create_from_config_file :: "environment \<Rightarrow> string \<Rightarrow> pyexc + vision_model" where
  "create_from_config_file env config_file =
     (case load_vision_config env config_file of
        Inl e \<Rightarrow> Inl (load_failed config_file e)
      | Inr vision_config \<Rightarrow>
          (case create_model env vision_config of
             Inl e \<Rightarrow> Inl (load_failed config_file e)
           | Inr m \<Rightarrow> Inr m))"

text \<open>The argument of \<^verbatim>\<open>create_vision_model\<close>: \<^verbatim>\<open>None\<close>, a string, a dict, or a value of
  another type (with the \<^verbatim>\<open>str\<close> of its type).\<close>

datatype config_arg =
  NoConfig
| ConfigStr string
| ConfigDict "string \<rightharpoonup> string"
| ConfigOther string

text \<open>\<^verbatim>\<open>str(list(d.keys()))\<close> for keys that need no escaping.\<close>

fun join_comma :: "string list \<Rightarrow> string" where
  "join_comma [] = []"
| "join_comma [x] = x"
| "join_comma (x # y # ys) = x @ '', '' @ join_comma (y # ys)"

definition repr_keys :: "string list \<Rightarrow> string" where
  "repr_keys ks = ''['' @ join_comma (map (\<lambda>k. quote_char # k @ [quote_char]) ks) @ '']''"

definition invalid_config :: string where
  "invalid_config =
     [CHR 0xE6, CHR 0x97, CHR 0xA0] @ [CHR 0xE6, CHR 0x95, CHR 0x88] @
     [CHR 0xE7, CHR 0x9A, CHR 0x84] @ [CHR 0xE9, CHR 0x85, CHR 0x8D] @
     [CHR 0xE7, CHR 0xBD, CHR 0xAE] @ '': ''"

definition supported_providers :: string where
  "supported_providers =
     [CHR 0xE3, CHR 0x80, CHR 0x82] @ [CHR 0xE6, CHR 0x94, CHR 0xAF] @
     [CHR 0xE6, CHR 0x8C, CHR 0x81] @ [CHR 0xE7, CHR 0x9A, CHR 0x84] @
     [CHR 0xE6, CHR 0x8F, CHR 0x90] @ [CHR 0xE4, CHR 0xBE, CHR 0x9B] @
     [CHR 0xE5, CHR 0x95, CHR 0x86] @ '': ''"

definition unsupported_type :: string where
  "unsupported_type =
     [CHR 0xE4, CHR 0xB8, CHR 0x8D] @ [CHR 0xE6, CHR 0x94, CHR 0xAF] @
     [CHR 0xE6, CHR 0x8C, CHR 0x81] @ [CHR 0xE7, CHR 0x9A, CHR 0x84] @
     [CHR 0xE9, CHR 0x85, CHR 0x8D] @ [CHR 0xE7, CHR 0xBD, CHR 0xAE] @
     [CHR 0xE7, CHR 0xB1, CHR 0xBB] @ [CHR 0xE5, CHR 0x9E, CHR 0x8B] @ '': ''"

definition create_vision_model :: "environment \<Rightarrow> config_arg \<Rightarrow> pyexc + vision_model" where
  "create_vision_model env config =
     (case config of
        NoConfig \<Rightarrow> create_from_env env
      | ConfigStr s \<Rightarrow>
          (if py_lower s \<in> set (map fst providers) then
             create_model env [''provider'' \<mapsto> py_lower s]
           else if suffix ''.yaml'' s \<or> suffix ''.yml'' s \<or> suffix ''.json'' s then
             create_from_config_file env s
           else
             (case create_from_config_file env s of
                Inr m \<Rightarrow> Inr m
              | Inl e \<Rightarrow>
                  Inl (PyExc ValueError
                        (invalid_config @ s @ supported_providers @
                         repr_keys (map fst providers)))))
      | ConfigDict d \<Rightarrow> create_model env d
      | ConfigOther t \<Rightarrow> Inl (PyExc ValueError (unsupported_type @ t)))"

section \<open>Vocabulary of the stream properties\<close>

text \<open>The text a chunk carries, and the chunks whose keys are all present.\<close>

definition chunk_text :: "chunk \<Rightarrow> string" where
  "chunk_text c = (case c_message c of Some (Some txt) \<Rightarrow> txt | _ \<Rightarrow> [])"

definition has_text :: "chunk \<Rightarrow> bool" where
  "has_text c = (c_message c = Some (Some (chunk_text c)))"

text \<open>
  The count a chunk reports, 0 when it reports none; and the chunks whose two counts can
  be added: neither is \<^verbatim>\<open>None\<close>.
\<close>

definition count0 :: "int option option \<Rightarrow> int" where
  "count0 v = (case v of Some (Some n) \<Rightarrow> n | _ \<Rightarrow> 0)"

definition counts_add :: "chunk \<Rightarrow> bool" where
  "counts_add c = (c_prompt_eval_count c \<noteq> Some None \<and> c_eval_count c \<noteq> Some None)"

text \<open>
  A chunk that is not marked done, one that is (with counts that can be added), and one
  that is either.
\<close>

definition streaming_chunk :: "chunk \<Rightarrow> bool" where
  "streaming_chunk c = (c_done c = Some False \<and> has_text c)"

definition done_chunk :: "chunk \<Rightarrow> bool" where
  "done_chunk c = (c_done c = Some True \<and> has_text c \<and> counts_add c)"

definition well_formed :: "chunk \<Rightarrow> bool" where
  "well_formed c = (c_done c \<noteq> None \<and> has_text c \<and> (c_done c = Some False \<or> counts_add c))"

text \<open>The buffer after each of the texts \<open>ts\<close> in turn: the \<open>k\<close>-th is the first \<open>k + 1\<close> texts joined.\<close>

definition cumulative :: "string list \<Rightarrow> string list" where
  "cumulative ts = map (\<lambda>k. concat (take (Suc k) ts)) [0..<length ts]"

text \<open>Chunks as the Ollama server sends them, for the examples.\<close>

definition text_chunk :: "string \<Rightarrow> chunk" where
  "text_chunk txt =
     \<lparr>c_done = Some False, c_prompt_eval_count = None, c_eval_count = None,
      c_message = Some (Some txt)\<rparr>"

definition final_chunk :: "int \<Rightarrow> int \<Rightarrow> string \<Rightarrow> chunk" where
  "final_chunk p n txt =
     \<lparr>c_done = Some True, c_prompt_eval_count = Some (Some p), c_eval_count = Some (Some n),
      c_message = Some (Some txt)\<rparr>"

text \<open>
  The last chunk of a stream whose server left \<^verbatim>\<open>prompt_eval_count\<close> out and reported
  \<^verbatim>\<open>eval_count = 2\<close>: as a response object of the client, and as a plain dict.
\<close>

definition final_response_object :: chunk where
  "final_response_object =
     \<lparr>c_done = Some True, c_prompt_eval_count = Some None, c_eval_count = Some (Some 2),
      c_message = Some (Some [])\<rparr>"

definition final_dict :: chunk where
  "final_dict =
     \<lparr>c_done = Some True, c_prompt_eval_count = None, c_eval_count = Some (Some 2),
      c_message = Some (Some [])\<rparr>"

definition llava :: vision_model where
  "llava = \<lparr>cls = OllamaCV, key = None, model_name = ''llava'', lang = ''Chinese'',
            host = Some ''http://localhost:11434''\<rparr>"

definition user_turn :: "string \<Rightarrow> turn" where
  "user_turn txt = \<lparr>role = ''user'', content = txt, images = None\<rparr>"

definition assistant_turn :: "string \<Rightarrow> turn" where
  "assistant_turn txt = \<lparr>role = ''assistant'', content = txt, images = None\<rparr>"

text \<open>The content of the last turn whose role is \<^verbatim>\<open>"user"\<close>, if there is one.\<close>

definition last_user_content :: "turn list \<Rightarrow> string option" where
  "last_user_content history =
     (case filter (\<lambda>t. role t = ''user'') history of
        [] \<Rightarrow> None
      | u # us \<Rightarrow> Some (content (last (u # us))))"

text \<open>A spy client: it answers with the content of the last message it was sent.\<close>

definition echo_last :: "'v chat_request \<Rightarrow> pyexc + chat_response" where
  "echo_last req =
     Inr \<lparr>r_message = Some (Some (content (last (req_messages req)))),
          r_eval_count = Some (Some 0), r_prompt_eval_count = None\<rparr>"

text \<open>
  Two processes for the examples: one without the \<^verbatim>\<open>ollama\<close> package and one with it;
  in both every client library builds its client, no environment variable is set and
  no configuration file can be read.
\<close>

definition bare_host :: environment where
  "bare_host =
     \<lparr>ollama_available = False,
      client_init = (\<lambda>c k m h. None),
      getenv = (\<lambda>k. None),
      load_vision_config = (\<lambda>f. Inl (PyExc BackendError ''No such file or directory''))\<rparr>"

definition ollama_host :: environment where
  "ollama_host = bare_host\<lparr>ollama_available := True\<rparr>"

text \<open>Two hosted instances, clients that all raise, and clients that all answer.\<close>

definition gpt4 :: vision_model where
  "gpt4 = \<lparr>cls = GptV4, key = Some ''sk-test'', model_name = ''gpt-4-vision-preview'',
           lang = ''Chinese'', host = None\<rparr>"

definition qwen :: vision_model where
  "qwen = \<lparr>cls = QWenCV, key = Some ''sk-test'', model_name = ''qwen-vl-max'',
           lang = ''Chinese'', host = None\<rparr>"

definition failing_clients :: "int clients" where
  "failing_clients =
     \<lparr>generate_client = (\<lambda>req. Inl (PyExc BackendError ''timeout'')),
      chat_client = (\<lambda>req. Inl (PyExc BackendError ''timeout'')),
      stream_client = (\<lambda>req. Inl (PyExc BackendError ''timeout'')),
      hosted_client = (\<lambda>req. Inl (PyExc BackendError ''timeout'')),
      gemini_client = (\<lambda>req. Inl (PyExc BackendError ''timeout''))\<rparr>"

definition answering_clients :: "int clients" where
  "answering_clients =
     \<lparr>generate_client = (\<lambda>req. Inr (Some ''a cat'')),
      chat_client = echo_last,
      stream_client = (\<lambda>req. Inr []),
      hosted_client = (\<lambda>req. Inr [Some '' a cat '']),
      gemini_client = (\<lambda>req. Inr ''a cat'')\<rparr>"

section \<open>The streaming protocol\<close>

lemma cumulative_Cons:
  "map ((@) a) (cumulative (t # ts)) = (a @ t) # map ((@) (a @ t)) (cumulative ts)"
  unfolding cumulative_def
  by (simp add: upt_conv_Cons map_Suc_upt[symmetric] del: upt_Suc)

text \<open>
  The usage statement yields the sum of the counts, an absent key counting as 0, exactly
  when neither count is \<^verbatim>\<open>None\<close>; otherwise the addition raises.
\<close>

lemma usage_events_counted:
  "counts_add c \<Longrightarrow>
   usage_events True c = Inr [IntEvent (count0 (c_prompt_eval_count c) + count0 (c_eval_count c))]"
  by (cases "c_prompt_eval_count c"; cases "c_eval_count c")
     (auto simp add: counts_add_def usage_events_def get_or_0_def py_add_def count0_def)

lemma usage_events_none:
  "\<not> counts_add c \<Longrightarrow> \<exists>e. usage_events True c = Inl e \<and> exc_kind e = TypeError"
  by (cases "c_prompt_eval_count c"; cases "c_eval_count c")
     (auto simp add: counts_add_def usage_events_def get_or_0_def py_add_def
        split: option.splits)

text \<open>
  Chunks that are not done each add one text event with the whole buffer; the loop then
  goes on with the buffer they leave.
\<close>

lemma stream_loop_streaming:
  "list_all streaming_chunk cs \<Longrightarrow>
   stream_loop ans (map Chunk cs @ rest) =
     map TextEvent (map ((@) ans) (cumulative (map chunk_text cs))) @
     stream_loop (ans @ concat (map chunk_text cs)) rest"
proof (induction cs arbitrary: ans)
  case Nil
  then show ?case by (simp add: cumulative_def)
next
  case (Cons c cs)
  from Cons.prems have sc: "streaming_chunk c" and cs: "list_all streaming_chunk cs"
    by simp_all
  from sc have c: "c_done c = Some False" "c_message c = Some (Some (chunk_text c))"
    by (simp_all add: streaming_chunk_def has_text_def)
  show ?case
    using Cons.IH[OF cs, of "ans @ chunk_text c"] c
    by (simp add: cumulative_Cons usage_events_def)
qed

lemma stream_loop_well_formed:
  "list_all well_formed cs \<Longrightarrow>
   stream_loop ans (map Chunk cs @ rest) =
     stream_loop ans (map Chunk cs) @ stream_loop (ans @ concat (map chunk_text cs)) rest"
proof (induction cs arbitrary: ans)
  case Nil
  then show ?case by simp
next
  case (Cons c cs)
  from Cons.prems have wc: "well_formed c" and cs: "list_all well_formed cs"
    by simp_all
  from wc obtain d where c: "c_done c = Some d" "c_message c = Some (Some (chunk_text c))"
    and k: "d = False \<or> counts_add c"
    by (auto simp add: well_formed_def has_text_def)
  from k obtain us where u: "usage_events d c = Inr us"
  proof
    assume "d = False"
    then have "usage_events d c = Inr []" by (simp add: usage_events_def)
    then show ?thesis by (rule that)
  next
    assume a: "counts_add c"
    show ?thesis
    proof (cases d)
      case True
      with usage_events_counted[OF a] show ?thesis by (auto intro: that)
    next
      case False
      then have "usage_events d c = Inr []" by (simp add: usage_events_def)
      then show ?thesis by (rule that)
    qed
  qed
  show ?case
    using Cons.IH[OF cs, of "ans @ chunk_text c"] c u
    by simp
qed

text \<open>
  The order of the events when the client answers with the chunks \<open>cs\<close>, none marked
  done, and one last chunk \<open>d\<close> marked done whose counts can be added: for each chunk of
  \<open>cs\<close> a text event with the whole buffer so far; then the integer event of the two
  counts of \<open>d\<close> (an absent key is 0), before the text of \<open>d\<close> is added; then a text
  event with the buffer including the text of \<open>d\<close>; then the integer event 0, last.
\<close>

lemma chat_streamly_done_last:
  assumes "rewrite_last system history = Inr h"
    and "client (chat_request_of self (attach_images img h) True gen_conf) =
           Inr (map Chunk (cs @ [d]))"
    and "list_all streaming_chunk cs"
    and "done_chunk d"
  shows "chat_streamly self system history gen_conf img client =
     Inr (attach_images img h,
          map TextEvent (cumulative (map chunk_text cs)) @
          [IntEvent (count0 (c_prompt_eval_count d) + count0 (c_eval_count d)),
           TextEvent (concat (map chunk_text cs) @ chunk_text d),
           IntEvent 0])"
proof -
  have d: "c_done d = Some True" "c_message d = Some (Some (chunk_text d))"
    and k: "counts_add d"
    using assms(4) by (simp_all add: done_chunk_def has_text_def)
  have "stream_loop [] (map Chunk cs @ [Chunk d]) =
      map TextEvent (map ((@) []) (cumulative (map chunk_text cs))) @
      stream_loop ([] @ concat (map chunk_text cs)) [Chunk d]"
    by (rule stream_loop_streaming[OF assms(3)])
  then have "stream_loop [] (map Chunk (cs @ [d])) =
      map TextEvent (cumulative (map chunk_text cs)) @
      [IntEvent (count0 (c_prompt_eval_count d) + count0 (c_eval_count d)),
       TextEvent (concat (map chunk_text cs) @ chunk_text d)]"
    using d usage_events_counted[OF k] by simp
  then show ?thesis
    using assms(1,2) by (simp add: chat_streamly_def stream_events_def)
qed

text \<open>
  The chunks "Hel" and "lo", then a done chunk with \<open>prompt_eval_count = 3\<close>,
  \<open>eval_count = 2\<close> and empty text.
\<close>

lemma chat_streamly_done_last_example:
  "chat_streamly llava None [user_turn ''hi''] (Map.empty :: string \<rightharpoonup> int) (StrValue [])
     (\<lambda>req. Inr (map Chunk ([text_chunk ''Hel'', text_chunk ''lo''] @ [final_chunk 3 2 []]))) =
   Inr ([\<lparr>role = ''user'', content = ''hi'', images = Some [StrValue []]\<rparr>],
        [TextEvent ''Hel'', TextEvent ''Hello'', IntEvent 5, TextEvent ''Hello'', IntEvent 0])"
proof -
  have h1: "rewrite_last None [user_turn ''hi''] = Inr [user_turn ''hi'']"
    by (simp add: rewrite_last_def truthy_def)
  have h3: "list_all streaming_chunk [text_chunk ''Hel'', text_chunk ''lo'']"
    by (simp add: streaming_chunk_def has_text_def chunk_text_def text_chunk_def)
  have h4: "done_chunk (final_chunk 3 2 [])"
    by (simp add: done_chunk_def has_text_def chunk_text_def final_chunk_def counts_add_def)
  have "chat_streamly llava None [user_turn ''hi''] (Map.empty :: string \<rightharpoonup> int) (StrValue [])
     (\<lambda>req. Inr (map Chunk ([text_chunk ''Hel'', text_chunk ''lo''] @ [final_chunk 3 2 []]))) =
     Inr (attach_images (StrValue []) [user_turn ''hi''],
          map TextEvent (cumulative (map chunk_text [text_chunk ''Hel'', text_chunk ''lo''])) @
          [IntEvent (count0 (c_prompt_eval_count (final_chunk 3 2 [])) +
                     count0 (c_eval_count (final_chunk 3 2 []))),
           TextEvent (concat (map chunk_text [text_chunk ''Hel'', text_chunk ''lo'']) @
                      chunk_text (final_chunk 3 2 [])),
           IntEvent 0])"
    by (rule chat_streamly_done_last[OF h1 _ h3 h4]) simp
  then show ?thesis
    by (simp add: attach_images_def user_turn_def cumulative_def chunk_text_def text_chunk_def
        final_chunk_def count0_def upt_rec)
qed

text \<open>
  Claim C1 says that the done chunk yields the usage event \<open>prompt_eval_count +
  eval_count\<close>, a missing count treated as 0, then its text, then the terminal 0. The
  code, for the chunk "Hel" followed by a done chunk whose server left
  \<^verbatim>\<open>prompt_eval_count\<close> out and reported \<^verbatim>\<open>eval_count = 2\<close>: when the chunk is a
  response object of the client, \<^verbatim>\<open>get("prompt_eval_count", 0)\<close> is \<^verbatim>\<open>None\<close>, the
  addition raises \<^verbatim>\<open>TypeError\<close> inside the \<^verbatim>\<open>try\<close>, and the stream is the text "Hel",
  the error text and 0, without a usage event and without the done chunk's text event.
  The default 0 applies only when the chunk is a plain dict without the key.
\<close>

theorem omitted_count_ends_stream:
  "chat_streamly llava None [user_turn ''hi''] (Map.empty :: string \<rightharpoonup> int) (StrValue [])
     (\<lambda>req. Inr (map Chunk [text_chunk ''Hel'', final_response_object])) =
   Inr ([\<lparr>role = ''user'', content = ''hi'', images = Some [StrValue []]\<rparr>],
        [TextEvent ''Hel'',
         TextEvent (''Hel'' @ [CHR 0x0A] @
           ''**ERROR**: unsupported operand type(s) for +: '' @
           [quote_char] @ ''NoneType'' @ [quote_char] @ '' and '' @
           [quote_char] @ ''int'' @ [quote_char]),
         IntEvent 0]) \<and>
   chat_streamly llava None [user_turn ''hi''] (Map.empty :: string \<rightharpoonup> int) (StrValue [])
     (\<lambda>req. Inr (map Chunk [text_chunk ''Hel'', final_dict])) =
   Inr ([\<lparr>role = ''user'', content = ''hi'', images = Some [StrValue []]\<rparr>],
        [TextEvent ''Hel'', IntEvent 2, TextEvent ''Hel'', IntEvent 0])"
  by (simp add: chat_streamly_def rewrite_last_def truthy_def attach_images_def user_turn_def
      stream_events_def text_chunk_def final_response_object_def final_dict_def
      usage_events_def get_or_0_def py_add_def operand_type_def error_event_def
      error_marker_def)

text \<open>
  Claim C2. When the response iterator raises \<open>e\<close> after the well-formed chunks \<open>cs\<close>,
  whose texts make up the buffer \<open>b\<close>, \<open>chat_streamly\<close> does not raise: after the
  events of \<open>cs\<close> it yields the text event \<open>b + "\n**ERROR**: " + str(e)\<close> and then
  the integer event 0, and nothing more.
\<close>

theorem chat_streamly_iterator_raises:
  assumes "rewrite_last system history = Inr h"
    and "client (chat_request_of self (attach_images img h) True gen_conf) =
           Inr (map Chunk cs @ Raise e # rest)"
    and "list_all well_formed cs"
  shows "chat_streamly self system history gen_conf img client =
     Inr (attach_images img h,
          stream_loop [] (map Chunk cs) @
          [TextEvent (concat (map chunk_text cs) @ [CHR 0x0A] @ ''**ERROR**: '' @ exc_str e),
           IntEvent 0])"
proof -
  have "stream_loop [] (map Chunk cs @ Raise e # rest) =
      stream_loop [] (map Chunk cs) @ stream_loop ([] @ concat (map chunk_text cs)) (Raise e # rest)"
    by (rule stream_loop_well_formed[OF assms(3)])
  then have "stream_loop [] (map Chunk cs @ Raise e # rest) =
      stream_loop [] (map Chunk cs) @
      [TextEvent (concat (map chunk_text cs) @ [CHR 0x0A] @ ''**ERROR**: '' @ exc_str e)]"
    by (simp add: error_event_def error_marker_def)
  then show ?thesis
    using assms(1,2) by (simp add: chat_streamly_def stream_events_def)
qed

text \<open>The example of the claim: the chunk "Hel", then the iterator raises.\<close>

theorem chat_streamly_iterator_raises_witness:
  "chat_streamly llava None [user_turn ''hi''] (Map.empty :: string \<rightharpoonup> int) (StrValue [])
     (\<lambda>req. Inr (map Chunk [text_chunk ''Hel''] @ Raise (PyExc BackendError ''connection lost'') # [])) =
   Inr ([\<lparr>role = ''user'', content = ''hi'', images = Some [StrValue []]\<rparr>],
        [TextEvent ''Hel'',
         TextEvent (''Hel'' @ [CHR 0x0A] @ ''**ERROR**: connection lost''),
         IntEvent 0])"
proof -
  have h1: "rewrite_last None [user_turn ''hi''] = Inr [user_turn ''hi'']"
    by (simp add: rewrite_last_def truthy_def)
  have h3: "list_all well_formed [text_chunk ''Hel'']"
    by (simp add: well_formed_def has_text_def chunk_text_def text_chunk_def)
  have "chat_streamly llava None [user_turn ''hi''] (Map.empty :: string \<rightharpoonup> int) (StrValue [])
     (\<lambda>req. Inr (map Chunk [text_chunk ''Hel''] @ Raise (PyExc BackendError ''connection lost'') # [])) =
     Inr (attach_images (StrValue []) [user_turn ''hi''],
          stream_loop [] (map Chunk [text_chunk ''Hel'']) @
          [TextEvent (concat (map chunk_text [text_chunk ''Hel'']) @ [CHR 0x0A] @
                      ''**ERROR**: '' @ exc_str (PyExc BackendError ''connection lost'')),
           IntEvent 0])"
    by (rule chat_streamly_iterator_raises[OF h1 _ h3]) simp
  then show ?thesis
    by (simp add: attach_images_def user_turn_def chunk_text_def text_chunk_def usage_events_def)
qed

section \<open>The conversation sent downstream\<close>

lemma attach_images_last:
  "h \<noteq> [] \<Longrightarrow> content (last (attach_images img h)) = content (last h)"
  by (simp add: attach_images_def last_map)

lemma attach_images_butlast:
  "map content (butlast (attach_images img h)) = map content (butlast h)"
  by (simp add: attach_images_def map_butlast[symmetric])

lemma chat_returns:
  "rewrite_last system history = Inr h \<Longrightarrow>
   chat self system history gen_conf img client =
     Inr (attach_images img h,
          chat_result (client (chat_request_of self (attach_images img h) False gen_conf)))"
  by (simp add: chat_def Let_def)

lemma chat_streamly_returns:
  "rewrite_last system history = Inr h \<Longrightarrow>
   chat_streamly self system history gen_conf img client =
     Inr (attach_images img h,
          stream_events (client (chat_request_of self (attach_images img h) True gen_conf)))"
  by (simp add: chat_streamly_def Let_def)

lemma rewrite_last_cases:
  "history \<noteq> [] \<Longrightarrow>
   \<exists>h. rewrite_last system history = Inr h \<and> h \<noteq> [] \<and>
       map content (butlast h) = map content (butlast history) \<and>
       content (last h) =
         (if truthy system
          then the_str system @ content (last history) @ ''user query: '' @ content (last history)
          else content (last history))"
  by (simp add: rewrite_last_def)

text \<open>
  Claim C7, as stated, takes \<open>X\<close> from the last user turn. The code rewrites
  \<^verbatim>\<open>history[-1]\<close>, whatever its role: for the system prompt "S" and a conversation of a
  user turn "X" followed by an assistant turn "Y", the last user turn has content "X",
  yet the content sent downstream in the last turn (the spy client returns it) is
  "SYuser query: Y", not "S" + "X" + "user query: " + "X".
\<close>

theorem last_user_turn_not_rewritten:
  "last_user_content [user_turn ''X'', assistant_turn ''Y''] = Some ''X'' \<and>
   chat llava (Some ''S'') [user_turn ''X'', assistant_turn ''Y''] (Map.empty :: string \<rightharpoonup> int)
     (StrValue []) echo_last =
   Inr ([\<lparr>role = ''user'', content = ''X'', images = Some [StrValue []]\<rparr>,
         \<lparr>role = ''assistant'', content = ''SYuser query: Y'', images = None\<rparr>],
        (''SYuser query: Y'', 0)) \<and>
   ''SYuser query: Y'' \<noteq> ''S'' @ ''X'' @ ''user query: '' @ ''X''"
  by (simp add: last_user_content_def user_turn_def assistant_turn_def chat_def rewrite_last_def
      truthy_def the_str_def attach_images_def chat_request_of_def echo_last_def chat_result_def
      py_strip_def py_isspace_def get_or_0_def py_add_def)

text \<open>
  Claim C7, amended. For every non-empty conversation, \<open>chat\<close> and \<open>chat_streamly\<close> send
  the client the same messages, which are also the caller's history after the call. With
  a non-empty system prompt \<open>s\<close>, the content of the last turn (of any role), \<open>X\<close> before
  the call, is exactly \<open>s + X + "user query: " + X\<close> in them; with an empty or absent
  system prompt it is still \<open>X\<close>. The contents of all earlier turns are unchanged.
\<close>

theorem chat_rewrites_last_turn:
  assumes "history \<noteq> []"
  shows "\<exists>messages.
     chat self system history gen_conf img client =
       Inr (messages, chat_result (client (chat_request_of self messages False gen_conf))) \<and>
     chat_streamly self system history gen_conf' img sclient =
       Inr (messages, stream_events (sclient (chat_request_of self messages True gen_conf'))) \<and>
     map content (butlast messages) = map content (butlast history) \<and>
     content (last messages) =
       (if truthy system
        then the_str system @ content (last history) @ ''user query: '' @ content (last history)
        else content (last history))"
proof -
  from rewrite_last_cases[OF assms, of system] obtain h where
    r: "rewrite_last system history = Inr h" and ne: "h \<noteq> []" and
    b: "map content (butlast h) = map content (butlast history)" and
    l: "content (last h) =
         (if truthy system
          then the_str system @ content (last history) @ ''user query: '' @ content (last history)
          else content (last history))"
    by blast
  let ?m = "attach_images img h"
  have 1: "chat self system history gen_conf img client =
       Inr (?m, chat_result (client (chat_request_of self ?m False gen_conf)))"
    by (rule chat_returns[OF r])
  have 2: "chat_streamly self system history gen_conf' img sclient =
       Inr (?m, stream_events (sclient (chat_request_of self ?m True gen_conf')))"
    by (rule chat_streamly_returns[OF r])
  have 3: "map content (butlast ?m) = map content (butlast history)"
    using b by (simp add: attach_images_butlast)
  have 4: "content (last ?m) =
         (if truthy system
          then the_str system @ content (last history) @ ''user query: '' @ content (last history)
          else content (last history))"
    using l attach_images_last[OF ne, of img] by simp
  from 1 2 3 4 show ?thesis by blast
qed

text \<open>The system prompt "S" and the single user turn "X": the client is sent "SXuser query: X".\<close>

theorem chat_rewrites_last_turn_witness:
  "\<exists>messages.
     chat llava (Some ''S'') [user_turn ''X''] (Map.empty :: string \<rightharpoonup> int) (StrValue [])
       echo_last =
       Inr (messages, (''SXuser query: X'', 0)) \<and>
     content (last messages) = ''SXuser query: X''"
proof -
  have ne: "[user_turn ''X''] \<noteq> []" by simp
  from chat_rewrites_last_turn[OF ne, of llava "Some ''S''" "Map.empty :: string \<rightharpoonup> int"
      "StrValue []" echo_last "Map.empty :: string \<rightharpoonup> int" "\<lambda>req. Inr []"]
  obtain messages where
    c: "chat llava (Some ''S'') [user_turn ''X''] (Map.empty :: string \<rightharpoonup> int) (StrValue [])
          echo_last =
        Inr (messages,
             chat_result (echo_last
               (chat_request_of llava messages False (Map.empty :: string \<rightharpoonup> int))))"
    and l: "content (last messages) = ''SXuser query: X''"
    by (auto simp add: truthy_def the_str_def user_turn_def)
  have "chat_result (echo_last
          (chat_request_of llava messages False (Map.empty :: string \<rightharpoonup> int))) =
        (''SXuser query: X'', 0)"
    using l
    by (simp add: echo_last_def chat_request_of_def chat_result_def get_or_0_def py_add_def py_strip_def
        py_isspace_def)
  with c l show ?thesis by auto
qed

section \<open>Image attachments\<close>

lemma rewrite_last_frame:
  assumes "rewrite_last system history = Inr h"
  shows "map (\<lambda>t. (role t, images t)) h = map (\<lambda>t. (role t, images t)) history"
proof (cases "truthy system \<and> history \<noteq> []")
  case True
  with assms have h: "h = butlast history @
      [(last history)\<lparr>content := the_str system @ content (last history) @ ''user query: '' @
         content (last history)\<rparr>]"
    by (simp add: rewrite_last_def)
  have "map (\<lambda>t. (role t, images t)) history =
        map (\<lambda>t. (role t, images t)) (butlast history @ [last history])"
    using True by simp
  then show ?thesis unfolding h by simp
next
  case False
  with assms show ?thesis by (auto simp add: rewrite_last_def split: if_splits)
qed

text \<open>
  Claim C9, as stated, fails: in a conversation of the user turn "a", the assistant turn
  "b" and the user turn "c", the earlier user turn "a" carries the image after the call
  as well, so the user turns before the last one are not all without an attachment.
\<close>

theorem earlier_user_turn_gets_image:
  "chat llava None [user_turn ''a'', assistant_turn ''b'', user_turn ''c'']
     (Map.empty :: string \<rightharpoonup> int) (Bytes [1]) echo_last =
   Inr ([\<lparr>role = ''user'', content = ''a'', images = Some [Bytes [1]]\<rparr>,
         \<lparr>role = ''assistant'', content = ''b'', images = None\<rparr>,
         \<lparr>role = ''user'', content = ''c'', images = Some [Bytes [1]]\<rparr>],
        (''c'', 0)) \<and>
   \<not> list_all (\<lambda>t. images t = None)
       (butlast (filter (\<lambda>t. role t = ''user'')
         [\<lparr>role = ''user'', content = ''a'', images = Some [Bytes [1]]\<rparr>,
          \<lparr>role = ''assistant'', content = ''b'', images = None\<rparr>,
          \<lparr>role = ''user'', content = ''c'', images = Some [Bytes [1]]\<rparr>]))"
  by (simp add: user_turn_def assistant_turn_def chat_def rewrite_last_def
      truthy_def attach_images_def chat_request_of_def echo_last_def chat_result_def
      py_strip_def py_isspace_def get_or_0_def py_add_def)

text \<open>
  Claim C9, amended. When \<open>chat\<close> or \<open>chat_streamly\<close> returns, the caller's history has
  the turns it had, with the same roles, and every turn whose role is \<^verbatim>\<open>"user"\<close>, the
  earlier ones as well as the last, carries the one-element attachment list \<open>[image]\<close>;
  the attachments of the other turns are as they were.
\<close>

theorem images_on_every_user_turn:
  assumes "chat self system history gen_conf img client = Inr (messages, r) \<or>
           chat_streamly self system history gen_conf' img sclient = Inr (messages, evs)"
  shows "map images messages =
           map (\<lambda>t. if role t = ''user'' then Some [img] else images t) history \<and>
         map role messages = map role history"
proof -
  from assms obtain h where r: "rewrite_last system history = Inr h"
    and m: "messages = attach_images img h"
    by (auto simp add: chat_def chat_streamly_def Let_def split: sum.splits)
  note f = rewrite_last_frame[OF r]
  have "map images messages =
        map (\<lambda>p. if fst p = ''user'' then Some [img] else snd p) (map (\<lambda>t. (role t, images t)) h)"
    using m by (simp add: attach_images_def)
  also have "\<dots> = map (\<lambda>t. if role t = ''user'' then Some [img] else images t) history"
    unfolding f by simp
  finally have A: "map images messages =
       map (\<lambda>t. if role t = ''user'' then Some [img] else images t) history" .
  have "map role messages = map fst (map (\<lambda>t. (role t, images t)) h)"
    using m by (simp add: attach_images_def)
  also have "\<dots> = map role history"
    unfolding f by simp
  finally have B: "map role messages = map role history" .
  from A B show ?thesis by simp
qed

theorem images_on_every_user_turn_witness:
  "chat llava None [user_turn ''a'', assistant_turn ''b'', user_turn ''c'']
     (Map.empty :: string \<rightharpoonup> int) (Bytes [1]) echo_last =
   Inr ([\<lparr>role = ''user'', content = ''a'', images = Some [Bytes [1]]\<rparr>,
         \<lparr>role = ''assistant'', content = ''b'', images = None\<rparr>,
         \<lparr>role = ''user'', content = ''c'', images = Some [Bytes [1]]\<rparr>],
        (''c'', 0)) \<and>
   map images [\<lparr>role = ''user'', content = ''a'', images = Some [Bytes [1]]\<rparr>,
         \<lparr>role = ''assistant'', content = ''b'', images = None\<rparr>,
         \<lparr>role = ''user'', content = ''c'', images = Some [Bytes [1]]\<rparr>] =
   map (\<lambda>t. if role t = ''user'' then Some [Bytes [1]] else images t)
     [user_turn ''a'', assistant_turn ''b'', user_turn ''c'']"
proof -
  have c: "chat llava None [user_turn ''a'', assistant_turn ''b'', user_turn ''c'']
     (Map.empty :: string \<rightharpoonup> int) (Bytes [1]) echo_last =
   Inr ([\<lparr>role = ''user'', content = ''a'', images = Some [Bytes [1]]\<rparr>,
         \<lparr>role = ''assistant'', content = ''b'', images = None\<rparr>,
         \<lparr>role = ''user'', content = ''c'', images = Some [Bytes [1]]\<rparr>],
        (''c'', 0))"
    by (simp add: user_turn_def assistant_turn_def chat_def rewrite_last_def
      truthy_def attach_images_def chat_request_of_def echo_last_def chat_result_def
      py_strip_def py_isspace_def get_or_0_def py_add_def)
  from images_on_every_user_turn[OF disjI1[OF c]] c show ?thesis
    by blast
qed

section \<open>Image normalisation\<close>

lemma bytesio_rewind_read:
  "bytesio_read (bytesio_seek 0 (buf, pos)) = ((buf, length buf), buf)"
  by (simp add: bytesio_read_def bytesio_seek_def)

text \<open>
  Claim C8 says that all four image representations, the decoded image object among
  them, are normalised by \<open>image2base64\<close> to the same base64 payload. The code, for an
  image of two bytes: the \<^verbatim>\<open>bytes\<close> form is encoded, and the \<^verbatim>\<open>PIL.Image\<close> opened from
  the same bytes falls into the last branch and raises \<^verbatim>\<open>ValueError\<close>.
\<close>

theorem image2base64_rejects_decoded_image:
  "snd (image2base64 (Bytes [0x89, 0x50])) = Inr ''iVA='' \<and>
   snd (image2base64 (PILImage [0x89, 0x50])) =
     Inl (PyExc ValueError ''binary must be BytesIO or bytes'')"
  by (simp add: image2base64_def b64_char_def b64_alphabet_def)

text \<open>
  What \<open>image2base64\<close> does for each form: for the three byte-carrying forms of an image
  (a buffer whose read position is 0, a buffer at any other read position, a raw byte
  sequence) it gives the same payload, the base64 text of all the bytes; a buffer is
  rewound to position 0 before it is read, and is left read to its end. Every other
  value raises \<^verbatim>\<open>ValueError\<close>.
\<close>

lemma image2base64_forms:
  "image2base64 (BytesIO img_data pos) =
     (BytesIO img_data (length img_data), Inr (b64encode img_data)) \<and>
   image2base64 (Bytes img_data) = (Bytes img_data, Inr (b64encode img_data)) \<and>
   image2base64 (PILImage img_data) =
     (PILImage img_data, Inl (PyExc ValueError ''binary must be BytesIO or bytes'')) \<and>
   image2base64 (StrValue s) =
     (StrValue s, Inl (PyExc ValueError ''binary must be BytesIO or bytes''))"
  by (simp add: image2base64_def bytesio_rewind_read)

text \<open>
  The hosted classes therefore send the same request, and return the same text, for a
  buffer at any read position and for the raw bytes of the same image; for a decoded
  image object they return the marked text of the \<^verbatim>\<open>ValueError\<close>.
\<close>

lemma hosted_rejects_decoded_image:
  "cls self \<noteq> OllamaCV \<Longrightarrow>
   \<exists>cause. describe_with_prompt b cl self (PILImage img_data) given =
     Inr (RText (''**ERROR**: '' @ cause))"
  by (cases "cls self")
     (simp_all add: describe_with_prompt_def completion_describe_with_prompt_def
        anthropic_describe_with_prompt_def gemini_describe_with_prompt_def image2base64_def
        error_text_def error_marker_def)

lemma hosted_same_payload:
  "cls self \<noteq> OllamaCV \<Longrightarrow>
   describe_with_prompt b cl self (BytesIO img_data pos) given =
   describe_with_prompt b cl self (Bytes img_data) given"
  by (cases "cls self")
     (simp_all add: describe_with_prompt_def completion_describe_with_prompt_def
        anthropic_describe_with_prompt_def gemini_describe_with_prompt_def image2base64_def
        bytesio_rewind_read)

section \<open>OllamaCV.describe\<close>

lemma prompt_text_of_function:
  "prompt_text_of (PFunction f) = Inl (not_subscriptable ''function'')"
  by (simp add: prompt_text_of_def bind_exc_def)

lemma prompt_text_of_empty:
  "prompt_text_of (PStr []) = Inl (PyExc IndexError ''string index out of range'')"
  by (simp add: prompt_text_of_def bind_exc_def seq_index_def)

lemma prompt_text_of_string:
  "s \<noteq> [] \<Longrightarrow>
   prompt_text_of (PStr s) = Inl (PyExc TypeError ''string indices must be integers'')"
  by (simp add: prompt_text_of_def bind_exc_def seq_index_def)

lemma prompt_text_of_prompt:
  "\<exists>e. prompt_text_of (prompt b self) = Inl e \<and>
       exc_kind e =
         (if b = FallbackText [] \<and> py_lower (lang self) = ''chinese'' then IndexError
          else TypeError)"
proof (cases "py_lower (lang self) = ''chinese''")
  case True
  show ?thesis
  proof (cases b)
    case ImportedFunction
    then show ?thesis using True
      by (simp add: prompt_def vision_llm_prompt_def vision_llm_describe_prompt_def
          prompt_text_of_function not_subscriptable_def)
  next
    case (FallbackText ft)
    then show ?thesis using True
      by (cases "ft = []")
         (simp_all add: prompt_def vision_llm_prompt_def vision_llm_describe_prompt_def
          prompt_text_of_empty prompt_text_of_string)
  qed
next
  case False
  then show ?thesis
    by (simp add: prompt_def vision_llm_prompt_def prompt_text_of_string)
qed

text \<open>
  Claim C10. For every image, every instance and every client, \<open>OllamaCV.describe\<close>
  returns the pair \<open>("**ERROR**: " + cause, 0)\<close> and never a description: the prompt is
  a string (or the imported function object), and the argument expression
  \<^verbatim>\<open>prompt[0]["content"][1]["text"]\<close> raises inside the \<^verbatim>\<open>try\<close> before the client is
  called. The exception is a \<^verbatim>\<open>TypeError\<close>; only an empty fallback text (the one in the
  source is not empty) would make it the \<^verbatim>\<open>IndexError\<close> of \<^verbatim>\<open>prompt[0]\<close>.
\<close>

theorem ollama_describe_always_error:
  "\<exists>e. prompt_text_of (prompt b self) = Inl e \<and>
       exc_kind e =
         (if b = FallbackText [] \<and> py_lower (lang self) = ''chinese'' then IndexError
          else TypeError) \<and>
       ollama_describe b self img client = (''**ERROR**: '' @ exc_str e, 0)"
proof -
  from prompt_text_of_prompt[of b self] obtain e where
    e: "prompt_text_of (prompt b self) = Inl e" and
    k: "exc_kind e =
         (if b = FallbackText [] \<and> py_lower (lang self) = ''chinese'' then IndexError
          else TypeError)"
    by blast
  have "ollama_describe b self img client = (''**ERROR**: '' @ exc_str e, 0)"
    using e by (simp add: ollama_describe_def generate_result_def error_pair_def error_marker_def)
  with e k show ?thesis by blast
qed

section \<open>The factory\<close>

lemma py_lower_foo: "py_lower ''Foo'' = ''foo''"
  by (simp add: py_lower_def lower_char_def)

text \<open>
  Claim C4, as stated, fails: for the unregistered identifier "foo" the message of the
  \<^verbatim>\<open>ValueError\<close> is the fixed prefix followed by "foo", and not one registered
  identifier occurs in it.
\<close>

theorem create_model_message_names_no_provider:
  "create_model bare_host [''provider'' \<mapsto> ''foo''] =
     Inl (PyExc ValueError (unsupported_provider @ ''foo'')) \<and>
   \<not> list_ex (\<lambda>p. sublist p (unsupported_provider @ ''foo'')) (map fst providers)"
  by (simp add: create_model_def config_get_def py_lower_def lower_char_def providers_def
      unsupported_provider_def sublist_code)

text \<open>
  Claim C4, amended. For every configuration whose provider identifier, lower-cased
  (\<^verbatim>\<open>"openai"\<close> when the key is absent), is not in the registry, \<open>create_model\<close> fails
  with a \<^verbatim>\<open>ValueError\<close> whose message is the fixed prefix followed by that lower-cased
  identifier, and nothing else.
\<close>

theorem create_model_unknown_provider:
  assumes "map_of providers (py_lower (config_get config ''provider'' ''openai'')) = None"
  shows "create_model env config =
     Inl (PyExc ValueError
           (unsupported_provider @ py_lower (config_get config ''provider'' ''openai'')))"
  using assms by (simp add: create_model_def Let_def)

theorem create_model_unknown_provider_witness:
  "create_model bare_host [''provider'' \<mapsto> ''Foo''] =
     Inl (PyExc ValueError (unsupported_provider @ ''foo''))"
proof -
  have g: "py_lower (config_get [''provider'' \<mapsto> ''Foo''] ''provider'' ''openai'') = ''foo''"
    by (simp add: config_get_def py_lower_foo)
  have h: "map_of providers
             (py_lower (config_get [''provider'' \<mapsto> ''Foo''] ''provider'' ''openai'')) = None"
    unfolding g by (simp add: providers_def)
  from create_model_unknown_provider[OF h, of bare_host] show ?thesis unfolding g .
qed

text \<open>
  The registered identifiers are enumerated elsewhere: by \<open>create_vision_model\<close>, for a
  string that is no registered identifier, has none of the three file extensions and
  cannot be loaded as a configuration file.
\<close>

lemma repr_keys_providers:
  "repr_keys (map fst providers) =
   ''['' @ [quote_char] @ ''openai'' @ [quote_char] @ '', '' @
   [quote_char] @ ''qwen'' @ [quote_char] @ '', '' @
   [quote_char] @ ''zhipu'' @ [quote_char] @ '', '' @
   [quote_char] @ ''ollama'' @ [quote_char] @ '', '' @
   [quote_char] @ ''gemini'' @ [quote_char] @ '', '' @
   [quote_char] @ ''anthropic'' @ [quote_char] @ '']''"
  by (simp add: repr_keys_def providers_def)

lemma providers_in_repr:
  "list_all (\<lambda>p. sublist p (repr_keys (map fst providers))) (map fst providers)"
  unfolding repr_keys_providers
  by (simp add: providers_def sublist_code quote_char_def)

lemma sublist_in_tail: "sublist p r \<Longrightarrow> sublist p (a @ b @ c @ r)"
  by (metis append_assoc sublist_append_leftI sublist_order.order_trans)

lemma list_all_sublist_tail:
  "list_all (\<lambda>p. sublist p r) ps \<Longrightarrow> list_all (\<lambda>p. sublist p (a @ b @ c @ r)) ps"
  by (induction ps) (simp_all add: sublist_in_tail)

lemma create_vision_model_enumerates:
  assumes "py_lower s \<notin> set (map fst providers)"
    and "\<not> (suffix ''.yaml'' s \<or> suffix ''.yml'' s \<or> suffix ''.json'' s)"
    and "create_from_config_file env s = Inl e"
  shows "\<exists>msg. create_vision_model env (ConfigStr s) = Inl (PyExc ValueError msg) \<and>
           list_all (\<lambda>p. sublist p msg) (map fst providers)"
proof -
  let ?msg = "invalid_config @ s @ supported_providers @ repr_keys (map fst providers)"
  have "create_vision_model env (ConfigStr s) = Inl (PyExc ValueError ?msg)"
    using assms by (simp add: create_vision_model_def)
  moreover have "list_all (\<lambda>p. sublist p ?msg) (map fst providers)"
    by (rule list_all_sublist_tail[OF providers_in_repr])
  ultimately show ?thesis by blast
qed

text \<open>
  Claim C5, as stated, fails for the registered identifier "ollama": where the package
  is installed the instance is built with an empty model name, where it is not the
  constructor raises \<^verbatim>\<open>ImportError\<close>, and \<^verbatim>\<open>OllamaCV\<close> documents no default model.
\<close>

theorem ollama_has_no_default_model:
  "create_model ollama_host [''provider'' \<mapsto> ''ollama''] =
     Inr \<lparr>cls = OllamaCV, key = None, model_name = [], lang = ''Chinese'',
          host = Some ''http://localhost:11434''\<rparr> \<and>
   create_model bare_host [''provider'' \<mapsto> ''ollama''] =
     Inl (PyExc ImportError ollama_missing_message) \<and>
   default_model_name OllamaCV = None"
  by (simp add: create_model_def config_get_def py_lower_def lower_char_def providers_def
      fill_model_name_def construct_def ollama_host_def bare_host_def default_model_name_def)

lemma hosted_provider_cases:
  assumes "map_of providers p = Some c" and "default_model_name c = Some d"
  shows "(p = ''openai'' \<and> c = GptV4 \<and> d = ''gpt-4-vision-preview'') \<or>
         (p = ''qwen'' \<and> c = QWenCV \<and> d = ''qwen-vl-max'') \<or>
         (p = ''zhipu'' \<and> c = Zhipu4V \<and> d = ''glm-4v'') \<or>
         (p = ''gemini'' \<and> c = GeminiCV \<and> d = ''gemini-pro-vision'') \<or>
         (p = ''anthropic'' \<and> c = AnthropicCV \<and> d = ''claude-3-sonnet-20240229'')"
  using assms
  by (auto simp add: providers_def default_model_name_def split: if_splits)

text \<open>
  Claim C5, amended. For every registered provider identifier \<open>p\<close> whose class documents
  a default model name \<open>d\<close> (all but "ollama"), \<open>create_model\<close> applied to the
  configuration with only \<open>provider = p\<close> succeeds, provided the class's client library
  builds its client, and the instance has model name \<open>d\<close> (with an empty key and the
  language "Chinese").
\<close>

theorem create_model_default_model_name:
  assumes "map_of providers p = Some c"
    and "default_model_name c = Some d"
    and "client_init env c [] d None = None"
  shows "create_model env [''provider'' \<mapsto> p] =
     Inr \<lparr>cls = c, key = Some [], model_name = d, lang = ''Chinese'', host = None\<rparr>"
proof -
  have l: "py_lower ''openai'' = ''openai''" "py_lower ''qwen'' = ''qwen''"
    "py_lower ''zhipu'' = ''zhipu''" "py_lower ''gemini'' = ''gemini''"
    "py_lower ''anthropic'' = ''anthropic''"
    by (simp_all add: py_lower_def lower_char_def)
  from hosted_provider_cases[OF assms(1,2)] show ?thesis
  proof (elim disjE conjE)
    assume "p = ''openai''" "c = GptV4" "d = ''gpt-4-vision-preview''"
    with assms(3) show ?thesis
      by (simp add: create_model_def config_get_def l providers_def fill_model_name_def
          construct_def)
  next
    assume "p = ''qwen''" "c = QWenCV" "d = ''qwen-vl-max''"
    with assms(3) show ?thesis
      by (simp add: create_model_def config_get_def l providers_def fill_model_name_def
          construct_def)
  next
    assume "p = ''zhipu''" "c = Zhipu4V" "d = ''glm-4v''"
    with assms(3) show ?thesis
      by (simp add: create_model_def config_get_def l providers_def fill_model_name_def
          construct_def)
  next
    assume "p = ''gemini''" "c = GeminiCV" "d = ''gemini-pro-vision''"
    with assms(3) show ?thesis
      by (simp add: create_model_def config_get_def l providers_def fill_model_name_def
          construct_def)
  next
    assume "p = ''anthropic''" "c = AnthropicCV" "d = ''claude-3-sonnet-20240229''"
    with assms(3) show ?thesis
      by (simp add: create_model_def config_get_def l providers_def fill_model_name_def
          construct_def)
  qed
qed

theorem create_model_default_model_name_witness:
  "create_model bare_host [''provider'' \<mapsto> ''qwen''] =
     Inr \<lparr>cls = QWenCV, key = Some [], model_name = ''qwen-vl-max'', lang = ''Chinese'',
          host = None\<rparr>"
proof -
  have 1: "map_of providers ''qwen'' = Some QWenCV"
    by (simp add: providers_def)
  have 2: "default_model_name QWenCV = Some ''qwen-vl-max''"
    by (simp add: default_model_name_def)
  have 3: "client_init bare_host QWenCV [] ''qwen-vl-max'' None = None"
    by (simp add: bare_host_def)
  from create_model_default_model_name[OF 1 2 3] show ?thesis .
qed

section \<open>The capability contract across the variants\<close>

text \<open>Calling \<open>describe\<close> succeeds exactly on the classes that have the method.\<close>

lemma describe_dispatch:
  "(\<exists>r. describe b cl self img = Inr r) = has_method (cls self) ''describe''"
  by (cases "cls self")
     (simp_all add: describe_def has_method_def class_methods_def base_methods_def)

text \<open>Every class but \<^verbatim>\<open>OllamaCV\<close> answers \<open>describe_with_prompt\<close> with a bare string.\<close>

lemma hosted_returns_text:
  "cls self \<noteq> OllamaCV \<Longrightarrow> \<exists>t. describe_with_prompt b cl self img given = Inr (RText t)"
  by (cases "cls self") (simp_all add: describe_with_prompt_def)

lemma hosted_client_raises:
  assumes "cls self \<in> {GptV4, QWenCV, Zhipu4V, AnthropicCV}"
    and "snd (image2base64 img) = Inr payload"
    and "\<And>req. hosted_client cl req = Inl e"
  shows "describe_with_prompt b cl self img given = Inr (RText (''**ERROR**: '' @ exc_str e))"
  using assms
  by (auto simp add: describe_with_prompt_def completion_describe_with_prompt_def
      anthropic_describe_with_prompt_def bind_exc_def error_text_def error_marker_def)

text \<open>
  Claim C3 says that every exception of a describe, describe_with_prompt or chat call
  comes back as the pair of the marked text and 0. The code at three inputs: \<^verbatim>\<open>GptV4\<close>,
  whose client raises "timeout", returns the marked text alone, not a pair;
  \<^verbatim>\<open>OllamaCV.describe_with_prompt\<close> with a prompt lets the \<^verbatim>\<open>TypeError\<close> of its call of
  \<^verbatim>\<open>vision_llm_prompt\<close> through; \<^verbatim>\<open>OllamaCV.chat\<close> with a system prompt and an empty
  history lets the \<^verbatim>\<open>IndexError\<close> through.
\<close>

theorem error_results_by_variant:
  "describe_with_prompt ImportedFunction failing_clients gpt4 (Bytes [1]) (Some ''what is this?'') =
     Inr (RText ''**ERROR**: timeout'') \<and>
   describe_with_prompt ImportedFunction failing_clients llava (Bytes [1]) (Some ''what is this?'') =
     Inl (PyExc TypeError
           ''Base.vision_llm_prompt() takes 2 positional arguments but 3 were given'') \<and>
   chat_op failing_clients llava (Some ''S'') [] Map.empty (Bytes [1]) =
     Inl (PyExc IndexError ''list index out of range'')"
  by (simp add: describe_with_prompt_def gpt4_def llava_def failing_clients_def
      completion_describe_with_prompt_def image2base64_def bind_exc_def error_text_def
      error_marker_def ollama_describe_with_prompt_def truthy_def chat_op_def chat_def
      rewrite_last_def)

text \<open>
  Claim C6 says that all six classes expose describe, describe_with_prompt, chat and
  chat_streamly, the non-streaming ones returning pairs. The code: only \<^verbatim>\<open>OllamaCV\<close>
  has the four methods; on a \<^verbatim>\<open>QWenCV\<close> instance describe, chat and chat_streamly raise
  \<^verbatim>\<open>AttributeError\<close>, and describe_with_prompt returns a string, not a pair.
\<close>

theorem operations_by_variant:
  "map (\<lambda>c. map (has_method c) [''describe'', ''describe_with_prompt'', ''chat'', ''chat_streamly''])
     [GptV4, QWenCV, Zhipu4V, OllamaCV, GeminiCV, AnthropicCV] =
   [[False, True, False, False], [False, True, False, False], [False, True, False, False],
    [True, True, True, True], [False, True, False, False], [False, True, False, False]] \<and>
   describe ImportedFunction answering_clients qwen (Bytes [1]) =
     Inl (attribute_error QWenCV ''describe'') \<and>
   chat_op answering_clients qwen None [user_turn ''hi''] Map.empty (Bytes [1]) =
     Inl (attribute_error QWenCV ''chat'') \<and>
   chat_streamly_op answering_clients qwen None [user_turn ''hi''] Map.empty (Bytes [1]) =
     Inl (attribute_error QWenCV ''chat_streamly'') \<and>
   describe_with_prompt ImportedFunction answering_clients qwen (Bytes [1])
     (Some ''what is this?'') = Inr (RText ''a cat'')"
  by (simp add: has_method_def class_methods_def base_methods_def describe_def chat_op_def
      chat_streamly_op_def describe_with_prompt_def qwen_def answering_clients_def
      completion_describe_with_prompt_def image2base64_def bind_exc_def first_text_def
      py_strip_def py_isspace_def b64_char_def b64_alphabet_def)

end
